theory Spec2Isabelle
  imports Main "HOL-Library.Multiset"
begin

section \<open>Text and character classes\<close>

text \<open>
  The program works on Python \<open>str\<close> values: sequences of code points, indexed and
  sliced by code point.  A text is modelled as a \<open>string\<close> whose characters are the
  code points below 256; offsets are list indices.  The three character functions
  below are the ones the \<open>re\<close> module and \<open>str.strip\<close> use for such code points:
  \<open>\s\<close> and \<open>strip\<close> share one whitespace test, \<open>\w\<close> is "alphanumeric or
  underscore", and \<open>IGNORECASE\<close> compares lower-cased code points.
\<close>

abbreviation bslash :: char where
  "bslash \<equiv> CHR 0x5C"

abbreviation newline :: char where
  "newline \<equiv> CHR 0x0A"

definition is_space :: "char \<Rightarrow> bool" where
  "is_space c =
     (let n = (of_char c :: nat)
      in (9 \<le> n \<and> n \<le> 13) \<or> (28 \<le> n \<and> n \<le> 32) \<or> n = 133 \<or> n = 160)"

definition is_word :: "char \<Rightarrow> bool" where
  "is_word c =
     (let n = (of_char c :: nat)
      in (48 \<le> n \<and> n \<le> 57) \<or> (65 \<le> n \<and> n \<le> 90) \<or> n = 95 \<or> (97 \<le> n \<and> n \<le> 122)
         \<or> n = 170 \<or> n = 178 \<or> n = 179 \<or> n = 181 \<or> n = 185 \<or> n = 186
         \<or> (188 \<le> n \<and> n \<le> 190) \<or> (192 \<le> n \<and> n \<le> 214)
         \<or> (216 \<le> n \<and> n \<le> 246) \<or> (248 \<le> n \<and> n \<le> 255))"

definition is_upper :: "char \<Rightarrow> bool" where
  "is_upper c =
     (let n = (of_char c :: nat)
      in (65 \<le> n \<and> n \<le> 90) \<or> (192 \<le> n \<and> n \<le> 214) \<or> (216 \<le> n \<and> n \<le> 222))"

text \<open>
  The lower-case form of an upper-case code point below 256 is the code point plus 32.
  Bit 5 (value 32) is clear in every upper-case code point, so adding 32 sets that bit.
\<close>

definition lower :: "char \<Rightarrow> char" where
  "lower c =
     (if is_upper c
      then (case c of Char b0 b1 b2 b3 b4 b5 b6 b7 \<Rightarrow> Char b0 b1 b2 b3 b4 True b6 b7)
      else c)"

text \<open>\<open>str.strip()\<close>: drop the whitespace at both ends.\<close>

definition strip :: "string \<Rightarrow> string" where
  "strip s = rev (dropWhile is_space (rev (dropWhile is_space s)))"

text \<open>The slice \<open>s[i:j]\<close> for \<open>0 \<le> i\<close>, \<open>0 \<le> j\<close>: out-of-range bounds are clamped.\<close>

definition slice :: "'a list \<Rightarrow> nat \<Rightarrow> nat \<Rightarrow> 'a list" where
  "slice s i j = take (j - i) (drop i s)"


section \<open>The fragment of \<open>re\<close> the program uses\<close>

text \<open>
  The four patterns of the program are sequences of the following items.  \<open>Lit\<close> is a
  literal character (an escaped metacharacter is a literal), \<open>AnyLazy\<close> is \<open>.*?\<close>,
  \<open>SpaceGreedy\<close> is \<open>\s*\<close>, \<open>GOpen\<close>/\<open>GClose\<close> delimit a capturing group,
  \<open>Ahead\<close> is a lookahead \<open>(?=a|b)\<close> over alternatives, \<open>Eos\<close> is \<open>$\<close> (no
  \<open>MULTILINE\<close>) and \<open>WordB\<close> is \<open>\b\<close>.
\<close>

datatype item =
    Lit char
  | AnyLazy
  | SpaceGreedy
  | GOpen nat
  | GClose nat
  | Ahead "item list list"
  | Eos
  | WordB

text \<open>Captures: the pending group starts, and the closed groups as (start, end).\<close>

type_synonym caps = "(nat \<times> nat) list \<times> (nat \<times> (nat \<times> nat)) list"

definition chr_eq :: "bool \<Rightarrow> char \<Rightarrow> char \<Rightarrow> bool" where
  "chr_eq ic c d = (if ic then lower c = lower d else c = d)"

definition word_before :: "char option \<Rightarrow> bool" where
  "word_before prev = (case prev of None \<Rightarrow> False | Some c \<Rightarrow> is_word c)"

definition word_after :: "string \<Rightarrow> bool" where
  "word_after rest = (case rest of [] \<Rightarrow> False | c # _ \<Rightarrow> is_word c)"

definition at_boundary :: "char option \<Rightarrow> string \<Rightarrow> bool" where
  "at_boundary prev rest = (word_before prev \<noteq> word_after rest)"

definition at_eos :: "string \<Rightarrow> bool" where
  "at_eos rest = (rest = [] \<or> rest = [newline])"

definition open_group :: "nat \<Rightarrow> nat \<Rightarrow> caps \<Rightarrow> caps" where
  "open_group n pos cs = ((n, pos) # fst cs, snd cs)"

definition close_group :: "nat \<Rightarrow> nat \<Rightarrow> caps \<Rightarrow> caps" where
  "close_group n pos cs =
     (case map_of (fst cs) n of
        None \<Rightarrow> cs
      | Some s \<Rightarrow> (fst cs, (n, (s, pos)) # snd cs))"

text \<open>
  The backtracking matcher.  \<open>match_here ic da its prev pos rest cs forbid\<close> matches
  the items \<open>its\<close> at offset \<open>pos\<close>, where \<open>rest\<close> is the text from \<open>pos\<close> on and
  \<open>prev\<close> the character before it; \<open>ic\<close> is \<open>IGNORECASE\<close> and \<open>da\<close> is \<open>DOTALL\<close>.
  It returns the end offset and the captures of the first match in backtracking
  order.  \<open>forbid\<close> is the engine's "must advance" rule: a match ending at that offset
  is rejected and the alternatives are tried.
\<close>

fun match_here ::
  "bool \<Rightarrow> bool \<Rightarrow> item list \<Rightarrow> char option \<Rightarrow> nat \<Rightarrow> string \<Rightarrow> caps \<Rightarrow> nat option
     \<Rightarrow> (nat \<times> caps) option" where
  "match_here ic da [] prev pos rest cs forbid =
     (if forbid = Some pos then None else Some (pos, cs))"
| "match_here ic da (Lit c # its) prev pos [] cs forbid = None"
| "match_here ic da (Lit c # its) prev pos (d # ds) cs forbid =
     (if chr_eq ic c d then match_here ic da its (Some d) (pos + 1) ds cs forbid else None)"
| "match_here ic da (AnyLazy # its) prev pos [] cs forbid =
     match_here ic da its prev pos [] cs forbid"
| "match_here ic da (AnyLazy # its) prev pos (d # ds) cs forbid =
     (case match_here ic da its prev pos (d # ds) cs forbid of
        Some r \<Rightarrow> Some r
      | None \<Rightarrow>
          if da \<or> d \<noteq> newline
          then match_here ic da (AnyLazy # its) (Some d) (pos + 1) ds cs forbid
          else None)"
| "match_here ic da (SpaceGreedy # its) prev pos [] cs forbid =
     match_here ic da its prev pos [] cs forbid"
| "match_here ic da (SpaceGreedy # its) prev pos (d # ds) cs forbid =
     (if is_space d
      then (case match_here ic da (SpaceGreedy # its) (Some d) (pos + 1) ds cs forbid of
              Some r \<Rightarrow> Some r
            | None \<Rightarrow> match_here ic da its prev pos (d # ds) cs forbid)
      else match_here ic da its prev pos (d # ds) cs forbid)"
| "match_here ic da (GOpen n # its) prev pos rest cs forbid =
     match_here ic da its prev pos rest (open_group n pos cs) forbid"
| "match_here ic da (GClose n # its) prev pos rest cs forbid =
     match_here ic da its prev pos rest (close_group n pos cs) forbid"
| "match_here ic da (Ahead alts # its) prev pos rest cs forbid =
     (if list_ex (\<lambda>alt. match_here ic da alt prev pos rest cs None \<noteq> None) alts
      then match_here ic da its prev pos rest cs forbid
      else None)"
| "match_here ic da (Eos # its) prev pos rest cs forbid =
     (if at_eos rest then match_here ic da its prev pos rest cs forbid else None)"
| "match_here ic da (WordB # its) prev pos rest cs forbid =
     (if at_boundary prev rest then match_here ic da its prev pos rest cs forbid else None)"

text \<open>A match object: \<open>m.start()\<close>, \<open>m.end()\<close> and the captures.\<close>

type_synonym rmatch = "nat \<times> nat \<times> caps"

text \<open>
  The matches that start at one offset: the first match there and, when that one is
  empty, the non-empty match the scanner finds on retrying the same offset.
\<close>

definition attempts ::
  "bool \<Rightarrow> bool \<Rightarrow> item list \<Rightarrow> char option \<Rightarrow> nat \<Rightarrow> string \<Rightarrow> rmatch list" where
  "attempts ic da its prev pos rest =
     (case match_here ic da its prev pos rest ([], []) None of
        None \<Rightarrow> []
      | Some (e, cs) \<Rightarrow>
          if e = pos
          then (pos, e, cs) #
               (case match_here ic da its prev pos rest ([], []) (Some pos) of
                  None \<Rightarrow> []
                | Some (e2, cs2) \<Rightarrow> [(pos, e2, cs2)])
          else [(pos, e, cs)])"

text \<open>
  \<open>finditer\<close>: the non-overlapping matches from left to right.  The scan visits every
  offset of the text; offsets below \<open>nxt\<close> lie inside the match found last and are
  passed over.  After a match the scan resumes at the end of that match.
\<close>

fun scan ::
  "bool \<Rightarrow> bool \<Rightarrow> item list \<Rightarrow> char option \<Rightarrow> nat \<Rightarrow> string \<Rightarrow> nat \<Rightarrow> rmatch list" where
  "scan ic da its prev pos [] nxt =
     (if pos < nxt then [] else attempts ic da its prev pos [])"
| "scan ic da its prev pos (d # ds) nxt =
     (if pos < nxt then scan ic da its (Some d) (pos + 1) ds nxt
      else (case attempts ic da its prev pos (d # ds) of
              [] \<Rightarrow> scan ic da its (Some d) (pos + 1) ds nxt
            | m # ms \<Rightarrow>
                (m # ms) @ scan ic da its (Some d) (pos + 1) ds (fst (snd (last (m # ms))))))"

definition finditer :: "bool \<Rightarrow> bool \<Rightarrow> item list \<Rightarrow> string \<Rightarrow> rmatch list" where
  "finditer ic da its text = scan ic da its None 0 text 0"

definition m_start :: "rmatch \<Rightarrow> nat" where
  "m_start m = fst m"

definition m_end :: "rmatch \<Rightarrow> nat" where
  "m_end m = fst (snd m)"

text \<open>\<open>m.group(n)\<close> of a group that took part in the match.\<close>

definition m_group :: "string \<Rightarrow> rmatch \<Rightarrow> nat \<Rightarrow> string" where
  "m_group text m n =
     (case map_of (snd (snd (snd m))) n of
        None \<Rightarrow> []
      | Some (s, e) \<Rightarrow> slice text s e)"

definition lits :: "string \<Rightarrow> item list" where
  "lits s = map Lit s"

text \<open>\<open>re.escape(name)\<close> followed by compilation: every character matches itself.\<close>

definition escape :: "string \<Rightarrow> item list" where
  "escape name = lits name"

text \<open>The pattern of \<open>extract_glossary_terms\<close>, used with \<open>DOTALL\<close>.\<close>

definition entry_pattern :: "item list" where
  "entry_pattern =
     lits (bslash # ''newglossaryentry{'') @ [GOpen 1, AnyLazy, GClose 1] @ lits ''}''
     @ [SpaceGreedy] @ lits ''{'' @ [AnyLazy] @ lits ''name={''
     @ [GOpen 2, AnyLazy, GClose 2] @ lits ''}''"

text \<open>The pattern of Step 1 of \<open>replace_terms_with_gls\<close>, used with \<open>DOTALL\<close>.\<close>

definition def_pattern :: "item list" where
  "def_pattern =
     lits (bslash # ''newglossaryentry{'') @ [GOpen 1, AnyLazy, GClose 1] @ lits ''}''
     @ [SpaceGreedy] @ lits ''{'' @ [AnyLazy] @ lits ''}''
     @ [Ahead [SpaceGreedy # lits (bslash # ''newglossaryentry''), [Eos]]]"

text \<open>The pattern of Step 2, used without flags.\<close>

definition gls_pattern :: "item list" where
  "gls_pattern = lits (bslash # ''gls{'') @ [AnyLazy] @ lits ''}''"

text \<open>The pattern of Step 3, used with \<open>IGNORECASE\<close>.\<close>

definition name_pattern :: "string \<Rightarrow> item list" where
  "name_pattern name = [WordB] @ escape name @ [WordB]"


section \<open>Dictionaries\<close>

text \<open>
  A Python \<open>dict\<close> keeps its keys in insertion order; assigning to a key that is
  present replaces the value and keeps the key's place.
\<close>

type_synonym ('k, 'v) dict = "('k \<times> 'v) list"

fun dict_set :: "('k, 'v) dict \<Rightarrow> 'k \<Rightarrow> 'v \<Rightarrow> ('k, 'v) dict" where
  "dict_set [] k v = [(k, v)]"
| "dict_set ((k', v') # d) k v =
     (if k' = k then (k, v) # d else (k', v') # dict_set d k v)"

definition dict_get :: "('k, 'v) dict \<Rightarrow> 'k \<Rightarrow> 'v option" where
  "dict_get d k = map_of d k"

definition dict_of :: "('k \<times> 'v) list \<Rightarrow> ('k, 'v) dict" where
  "dict_of kvs = foldl (\<lambda>d (k, v). dict_set d k v) [] kvs"


section \<open>The program\<close>

definition inside_any :: "nat \<Rightarrow> (nat \<times> nat) list \<Rightarrow> bool" where
  "inside_any index spans = list_ex (\<lambda>(s, e). s \<le> index \<and> index < e) spans"

text \<open>\<open>re.findall\<close> with two groups: the pair of group texts of every match.\<close>

definition entries :: "string \<Rightarrow> (string \<times> string) list" where
  "entries tex_text =
     map (\<lambda>m. (m_group tex_text m 1, m_group tex_text m 2))
       (finditer False True entry_pattern tex_text)"

definition extract_glossary_terms :: "string \<Rightarrow> (string, string) dict" where
  "extract_glossary_terms tex_text =
     dict_of (map (\<lambda>(term, name). (strip term, strip name)) (entries tex_text))"

text \<open>A pending replacement: (start, end, replacement text, name).\<close>

type_synonym replacement = "nat \<times> nat \<times> string \<times> string"

definition glossary_defs :: "string \<Rightarrow> (string, nat \<times> nat) dict" where
  "glossary_defs tex_text =
     dict_of (map (\<lambda>m. (m_group tex_text m 1, (m_start m, m_end m)))
       (finditer False True def_pattern tex_text))"

definition gls_spans :: "string \<Rightarrow> (nat \<times> nat) list" where
  "gls_spans tex_text =
     map (\<lambda>m. (m_start m, m_end m)) (finditer False False gls_pattern tex_text)"

definition in_own_def :: "(string, nat \<times> nat) dict \<Rightarrow> string \<Rightarrow> nat \<Rightarrow> bool" where
  "in_own_def defs term start =
     (case dict_get defs term of
        None \<Rightarrow> False
      | Some def_span \<Rightarrow> fst def_span \<le> start \<and> start < snd def_span)"

definition gls_ref :: "string \<Rightarrow> string" where
  "gls_ref term = bslash # ''gls{'' @ term @ ''}''"

text \<open>The body of the loop over \<open>glossary.items()\<close> for one entry.\<close>

fun term_replacements ::
  "string \<Rightarrow> (string, nat \<times> nat) dict \<Rightarrow> (nat \<times> nat) list \<Rightarrow> string \<times> string
     \<Rightarrow> replacement list" where
  "term_replacements tex_text defs spans (term, name) =
     map (\<lambda>m. (m_start m, m_end m, gls_ref term, name))
       (filter (\<lambda>m. \<not> inside_any (m_start m) spans \<and> \<not> in_own_def defs term (m_start m))
          (finditer True False (name_pattern name) tex_text))"

definition replacements :: "string \<Rightarrow> (string, string) dict \<Rightarrow> replacement list" where
  "replacements tex_text glossary =
     concat (map (term_replacements tex_text (glossary_defs tex_text) (gls_spans tex_text))
       glossary)"

text \<open>\<open>replacements.sort(key=lambda x: x[0], reverse=True)\<close>: stable, descending.\<close>

definition sort_desc :: "replacement list \<Rightarrow> replacement list" where
  "sort_desc rs = sort_key (\<lambda>r. - int (fst r)) rs"

record rw_state =
  updated_text :: string
  occupied :: "nat set"
  changes :: "(string \<times> nat) list"

definition overlaps_occupied :: "nat set \<Rightarrow> nat \<Rightarrow> nat \<Rightarrow> bool" where
  "overlaps_occupied occ start end = list_ex (\<lambda>i. i \<in> occ) [start..<end]"

definition apply_one :: "rw_state \<Rightarrow> replacement \<Rightarrow> rw_state" where
  "apply_one st r =
     (case r of (start, end, repl, name) \<Rightarrow>
        if overlaps_occupied (occupied st) start end then st
        else \<lparr> updated_text = take start (updated_text st) @ repl @ drop end (updated_text st),
               occupied = occupied st \<union> set [start..<end],
               changes = changes st @ [(name, start)] \<rparr>)"

definition apply_all :: "string \<Rightarrow> replacement list \<Rightarrow> rw_state" where
  "apply_all tex_text rs =
     foldl apply_one \<lparr> updated_text = tex_text, occupied = {}, changes = [] \<rparr> rs"

definition replace_terms_with_gls ::
  "string \<Rightarrow> (string, string) dict \<Rightarrow> string \<times> (string \<times> nat) list" where
  "replace_terms_with_gls tex_text glossary =
     (let st = apply_all tex_text (sort_desc (replacements tex_text glossary))
      in (updated_text st, sort_key snd (changes st)))"


section \<open>Vocabulary of the properties\<close>

text \<open>
  The loop of Step 5 keeps the applied replacements only through their effect on the
  state.  \<open>applied_from occ rs\<close> lists, in processing order, the replacements of \<open>rs\<close>
  that the loop applies when it starts with the claimed positions \<open>occ\<close>; lemma
  \<open>foldl_apply_one\<close> below shows that the state of the loop is determined by it.
\<close>

definition span_of :: "replacement \<Rightarrow> nat set" where
  "span_of r = {fst r ..< fst (snd r)}"

definition change_of :: "replacement \<Rightarrow> string \<times> nat" where
  "change_of r = (snd (snd (snd r)), fst r)"

definition splice :: "string \<Rightarrow> replacement \<Rightarrow> string" where
  "splice txt r = take (fst r) txt @ fst (snd (snd r)) @ drop (fst (snd r)) txt"

fun applied_from :: "nat set \<Rightarrow> replacement list \<Rightarrow> replacement list" where
  "applied_from occ [] = []"
| "applied_from occ (r # rs) =
     (if overlaps_occupied occ (fst r) (fst (snd r)) then applied_from occ rs
      else r # applied_from (occ \<union> span_of r) rs)"

definition applied :: "string \<Rightarrow> (string, string) dict \<Rightarrow> replacement list" where
  "applied tex_text glossary = applied_from {} (sort_desc (replacements tex_text glossary))"

fun disjoint_spans :: "replacement list \<Rightarrow> bool" where
  "disjoint_spans [] = True"
| "disjoint_spans (r # rs) =
     ((\<forall>r' \<in> set rs. span_of r \<inter> span_of r' = {}) \<and> disjoint_spans rs)"


section \<open>Example inputs\<close>

text \<open>Three entries whose names overlap pairwise in the text \<open>a b c d\<close>.\<close>

definition overlap_text :: string where
  "overlap_text = ''a b c d''"

definition overlap_glossary :: "(string, string) dict" where
  "overlap_glossary = [(''k1'', ''c d''), (''k2'', ''b c''), (''k3'', ''a b'')]"


section \<open>Evaluation\<close>

text \<open>The unfolding rules with which the simplifier runs the program on an input.\<close>

lemmas run_defs =
  finditer_def attempts_def name_pattern_def escape_def lits_def
  chr_eq_def at_boundary_def word_before_def word_after_def at_eos_def
  is_word_def is_space_def is_upper_def lower_def
  m_start_def m_end_def m_group_def slice_def open_group_def close_group_def
  entry_pattern_def def_pattern_def gls_pattern_def glossary_defs_def gls_spans_def
  dict_of_def replacements_def inside_any_def in_own_def_def dict_get_def gls_ref_def
  sort_desc_def apply_all_def apply_one_def overlaps_occupied_def
  replace_terms_with_gls_def entries_def extract_glossary_terms_def strip_def
  applied_def span_of_def change_of_def splice_def Let_def

lemma overlaps_occupied_iff: "overlaps_occupied occ s e \<longleftrightarrow> occ \<inter> {s..<e} \<noteq> {}"
  by (auto simp: overlaps_occupied_def list_ex_iff)

lemma replacements_overlap_example:
  "replacements overlap_text overlap_glossary =
     [(4, 7, bslash # ''gls{k1}'', ''c d''), (2, 5, bslash # ''gls{k2}'', ''b c''),
      (0, 3, bslash # ''gls{k3}'', ''a b'')]"
  by (simp add: overlap_text_def overlap_glossary_def run_defs)

lemma applied_overlap_example:
  "applied overlap_text overlap_glossary =
     [(4, 7, bslash # ''gls{k1}'', ''c d''), (0, 3, bslash # ''gls{k3}'', ''a b'')]"
  unfolding applied_def replacements_overlap_example
  by (auto simp: sort_desc_def overlaps_occupied_iff span_of_def)


section \<open>The loop of Step 5\<close>


lemma foldl_apply_one:
  "foldl apply_one st rs =
     \<lparr> updated_text = foldl splice (updated_text st) (applied_from (occupied st) rs),
       occupied = occupied st \<union> \<Union> (span_of ` set (applied_from (occupied st) rs)),
       changes = changes st @ map change_of (applied_from (occupied st) rs) \<rparr>"
proof (induction rs arbitrary: st)
  case Nil
  show ?case by simp
next
  case (Cons r rs)
  obtain s e repl name where r: "r = (s, e, repl, name)" by (cases r) auto
  show ?case
  proof (cases "overlaps_occupied (occupied st) s e")
    case True
    then have "apply_one st r = st" by (simp add: apply_one_def r)
    with True Cons.IH [of st] show ?thesis by (simp add: r)
  next
    case False
    let ?st' = "\<lparr> updated_text = take s (updated_text st) @ repl @ drop e (updated_text st),
                  occupied = occupied st \<union> set [s..<e],
                  changes = changes st @ [(name, s)] \<rparr>"
    from False have step: "apply_one st r = ?st'" by (simp add: apply_one_def r)
    show ?thesis
      using False Cons.IH [of ?st'] unfolding foldl_Cons step
      by (simp add: r span_of_def splice_def change_of_def Un_assoc)
  qed
qed

lemma apply_all_applied:
  "updated_text (apply_all t rs) = foldl splice t (applied_from {} rs)"
  "occupied (apply_all t rs) = \<Union> (span_of ` set (applied_from {} rs))"
  "changes (apply_all t rs) = map change_of (applied_from {} rs)"
  by (simp_all add: apply_all_def foldl_apply_one)

lemma replace_terms_with_gls_applied:
  "replace_terms_with_gls t g =
     (foldl splice t (applied t g), sort_key snd (map change_of (applied t g)))"
  by (simp add: replace_terms_with_gls_def Let_def apply_all_applied applied_def)

lemma applied_from_subset: "set (applied_from occ rs) \<subseteq> set rs"
  by (induction rs arbitrary: occ) auto

lemma applied_from_avoids: "r \<in> set (applied_from occ rs) \<Longrightarrow> span_of r \<inter> occ = {}"
proof (induction rs arbitrary: occ)
  case Nil
  then show ?case by simp
next
  case (Cons a rs)
  show ?case
  proof (cases "overlaps_occupied occ (fst a) (fst (snd a))")
    case True
    with Cons show ?thesis by simp
  next
    case False
    then have "span_of a \<inter> occ = {}"
      by (auto simp: overlaps_occupied_iff span_of_def)
    moreover have "r \<in> set (applied_from (occ \<union> span_of a) rs) \<Longrightarrow> span_of r \<inter> occ = {}"
      using Cons.IH [of "occ \<union> span_of a"] by auto
    ultimately show ?thesis using Cons.prems False by auto
  qed
qed

lemma disjoint_spans_applied_from: "disjoint_spans (applied_from occ rs)"
proof (induction rs arbitrary: occ)
  case Nil
  show ?case by simp
next
  case (Cons a rs)
  show ?case
  proof (cases "overlaps_occupied occ (fst a) (fst (snd a))")
    case True
    with Cons.IH show ?thesis by simp
  next
    case False
    have "\<forall>r' \<in> set (applied_from (occ \<union> span_of a) rs). span_of a \<inter> span_of r' = {}"
    proof
      fix r' assume "r' \<in> set (applied_from (occ \<union> span_of a) rs)"
      then have "span_of r' \<inter> (occ \<union> span_of a) = {}" by (rule applied_from_avoids)
      then show "span_of a \<inter> span_of r' = {}" by blast
    qed
    with False Cons.IH show ?thesis by simp
  qed
qed

lemma disjoint_spans_nth:
  "disjoint_spans rs \<Longrightarrow> i < j \<Longrightarrow> j < length rs \<Longrightarrow> span_of (rs ! i) \<inter> span_of (rs ! j) = {}"
proof (induction rs arbitrary: i j)
  case Nil
  then show ?case by simp
next
  case (Cons a rs)
  show ?case
  proof (cases i)
    case 0
    with Cons.prems obtain j' where j: "j = Suc j'" "j' < length rs" by (cases j) auto
    with Cons.prems 0 show ?thesis by auto
  next
    case (Suc i')
    with Cons.prems obtain j' where j: "j = Suc j'" "i' < j'" "j' < length rs" by (cases j) auto
    with Cons.prems Cons.IH [of i' j'] Suc show ?thesis by simp
  qed
qed

text \<open>
  C3.  For every text and mapping, the spans \<open>[start, end)\<close> of the replacements the
  Rewriter applies are pairwise disjoint in original-text offsets: no offset is covered
  by two applied replacements.
\<close>

theorem applied_spans_disjoint:
  "i < j \<Longrightarrow> j < length (applied t g) \<Longrightarrow>
     span_of (applied t g ! i) \<inter> span_of (applied t g ! j) = {}"
  unfolding applied_def by (rule disjoint_spans_nth [OF disjoint_spans_applied_from])

theorem applied_spans_disjoint_witness:
  "(0::nat) < 1 \<and> 1 < length (applied overlap_text overlap_glossary)
   \<and> span_of (applied overlap_text overlap_glossary ! 0) = {4..<7}
   \<and> span_of (applied overlap_text overlap_glossary ! 1) = {0..<3}
   \<and> span_of (applied overlap_text overlap_glossary ! 0)
       \<inter> span_of (applied overlap_text overlap_glossary ! 1) = {}"
proof -
  have len: "1 < length (applied overlap_text overlap_glossary)"
    by (simp add: applied_overlap_example)
  have "span_of (applied overlap_text overlap_glossary ! 0)
          \<inter> span_of (applied overlap_text overlap_glossary ! 1) = {}"
    using applied_spans_disjoint [of 0 1 overlap_text overlap_glossary] len by simp
  then show ?thesis
    using len by (simp add: applied_overlap_example span_of_def)
qed

text \<open>
  C8.  For every text and mapping, the change list the Rewriter returns is sorted by
  ascending original-text start offset, whatever the order in which the replacements
  were applied; it holds exactly the changes of the applied replacements.
\<close>

theorem changes_sorted:
  "sorted (map snd (snd (replace_terms_with_gls t g)))
   \<and> mset (snd (replace_terms_with_gls t g)) = mset (map change_of (applied t g))"
  by (simp add: replace_terms_with_gls_applied)

theorem changes_sorted_witness:
  "sorted (map snd (snd (replace_terms_with_gls overlap_text overlap_glossary)))
   \<and> snd (replace_terms_with_gls overlap_text overlap_glossary) = [(''a b'', 0), (''c d'', 4)]
   \<and> map change_of (applied overlap_text overlap_glossary) = [(''c d'', 4), (''a b'', 0)]"
  using changes_sorted [of overlap_text overlap_glossary]
  by (simp add: replace_terms_with_gls_applied applied_overlap_example change_of_def)

end
